theory Spec2Isabelle
  imports Complex_Main
begin

section \<open>Data model (types.ts)\<close>

text \<open>
  The interfaces of \<^verbatim>\<open>types.ts\<close> become records, the string-literal unions become
  datatypes and an optional field \<^verbatim>\<open>f?: T\<close> becomes \<open>T option\<close>. Field names that
  occur in several interfaces, or that clash with a constant or a keyword, carry a prefix
  (\<^verbatim>\<open>Medication.id\<close> is \<open>med_id\<close>, \<^verbatim>\<open>MedicationLog.context\<close> is \<open>log_context\<close>).
  A JavaScript \<^verbatim>\<open>number\<close> that the engine only carries along is a \<open>real\<close>.
\<close>

datatype ScheduleType = Fixed | Meal_relative
datatype MealTime = Breakfast | Lunch | Dinner
datatype MealTiming = Before | After

record MealTrigger =
  meal :: MealTime
  timing :: MealTiming

record Medication =
  med_id :: string
  med_name :: string
  dosage :: string
  frequency :: string
  instructions :: string
  takenToday :: bool
  requiresFood :: "bool option"
  scheduleType :: ScheduleType
  fixedTimes :: "string list option"
  mealTriggers :: "MealTrigger list option"

text \<open>
  An instant is a number of milliseconds since the epoch, the value a JavaScript
  \<^verbatim>\<open>Date\<close> holds. The field \<^verbatim>\<open>timestamp\<close> of a log entry is an ISO string in the source;
  the model keeps the \<^verbatim>\<open>Date\<close> that \<^verbatim>\<open>new Date(timestamp)\<close> builds from it: \<open>Some t\<close>
  for the instant \<open>t\<close>, \<open>None\<close> for a string that does not parse (an invalid date).
  \<^verbatim>\<open>toISOString\<close> keeps the milliseconds, so the string written by
  \<^verbatim>\<open>new Date().toISOString()\<close> at instant \<open>t\<close> is read back as \<open>Some t\<close>.
\<close>

type_synonym instant = int

datatype LogStatus = Taken | Skipped

record MedicationLog =
  log_id :: string
  medName :: string
  timestamp :: "instant option"
  formattedDate :: string
  log_context :: "string option"
  status :: LogStatus

datatype Level = Low | Medium | High

record Meal =
  meal_name :: string
  meal_description :: string
  ingredients :: "string list"
  calories :: real
  glycemicIndex :: Level
  suitableFor :: "string list"
  imageUrl :: "string option"

record Exercise =
  ex_name :: string
  reps :: string
  duration :: "string option"
  visualDescription :: "string option"
  tips :: "string option"

record ExerciseRoutine =
  title :: string
  durationMinutes :: real
  intensity :: Level
  routine_description :: string
  medicalTip :: "string option"
  exercises :: "Exercise list"
  safetyNotes :: string

datatype Gender = Male | Female | Other
datatype ActivityLevel = Sedentary | Light | Moderate | Active | Athlete

text \<open>\<^verbatim>\<open>exerciseRoutine?: ExerciseRoutine | null\<close> has three shapes.\<close>

datatype 'a nullable = Absent | Null | Present 'a

record UserProfile =
  user_id :: "string option"
  user_name :: string
  age :: real
  gender :: Gender
  height :: real
  weight :: real
  activityLevel :: ActivityLevel
  diagnoses :: "string list"
  allowedFoods :: "string list"
  forbiddenFoods :: "string list"
  allergies :: "string list"
  goals :: string
  medications :: "Medication list"
  history :: "MedicationLog list"
  onboardingComplete :: bool
  mealPlan :: "Meal list option"
  exerciseRoutine :: "ExerciseRoutine nullable"

section \<open>The JavaScript runtime\<close>

text \<open>
  What the engine asks of \<^verbatim>\<open>Date\<close> depends on the time zone and the locale of the
  browser. They are a parameter of the model: \<open>tzOffset rt t\<close> is the offset of local
  time from UTC at the instant \<open>t\<close>, in milliseconds (it depends on \<open>t\<close> where
  daylight saving applies), and \<open>toLocaleString rt t\<close> is the text that
  \<^verbatim>\<open>toLocaleString('es-ES', ...)\<close> prints for \<open>t\<close>.
\<close>

record runtime =
  tzOffset :: "instant \<Rightarrow> int"
  toLocaleString :: "instant \<Rightarrow> string"

text \<open>
  \<^verbatim>\<open>toDateString()\<close> prints the local calendar date (weekday, month, day, year) and
  nothing of the time of day; two dates print the same text exactly when they fall on
  the same local calendar day. The model keeps the number of that day. An invalid date
  prints \<^verbatim>\<open>"Invalid Date"\<close>, which is \<open>None\<close> here and differs from the text of every
  valid date.
\<close>

definition localDay :: "runtime \<Rightarrow> instant \<Rightarrow> int" where
  "localDay rt t = (t + tzOffset rt t) div 86400000"

definition toDateString :: "runtime \<Rightarrow> instant option \<Rightarrow> int option" where
  "toDateString rt d = map_option (localDay rt) d"

text \<open>\<^verbatim>\<open>Number.prototype.toString()\<close> on an integer: its decimal digits.\<close>

fun digits :: "nat \<Rightarrow> string" where
  "digits n = (if n < 10 then [''0123456789'' ! n]
               else digits (n div 10) @ [''0123456789'' ! (n mod 10)])"

declare digits.simps [simp del]

definition numberToString :: "int \<Rightarrow> string" where
  "numberToString i = (if i < 0 then CHR ''-'' # digits (nat (- i)) else digits (nat i))"

text \<open>
  \<^verbatim>\<open>Array.prototype.findIndex\<close>: the index of the first element that satisfies the
  predicate; the source's \<^verbatim>\<open>-1\<close> is \<open>None\<close>.
\<close>

fun findIndex :: "('a \<Rightarrow> bool) \<Rightarrow> 'a list \<Rightarrow> nat option" where
  "findIndex P [] = None"
| "findIndex P (x # xs) =
     (if P x then Some 0 else map_option Suc (findIndex P xs))"

text \<open>\<^verbatim>\<open>xs.splice(i, 1)\<close>: the list without its element at index \<open>i\<close>.\<close>

definition splice1 :: "nat \<Rightarrow> 'a list \<Rightarrow> 'a list" where
  "splice1 i xs = take i xs @ drop (Suc i) xs"

section \<open>The dose engine (services/storageService.ts)\<close>

text \<open>
  \<^verbatim>\<open>getTargetDoses\<close>. An absent list is falsy, an empty list is truthy, and
  \<^verbatim>\<open>length || 1\<close> is 1 when the length is 0.
\<close>

definition getTargetDoses :: "Medication \<Rightarrow> nat" where
  "getTargetDoses med =
     (case (scheduleType med, fixedTimes med, mealTriggers med) of
        (Fixed, Some ts, _) \<Rightarrow> (if length ts = 0 then 1 else length ts)
      | (Meal_relative, _, Some ms) \<Rightarrow> (if length ms = 0 then 1 else length ms)
      | _ \<Rightarrow> 1)"

text \<open>
  The filter that \<^verbatim>\<open>recordMedicationDose\<close>, \<^verbatim>\<open>removeLastMedicationDose\<close> and
  \<^verbatim>\<open>getDoseProgress\<close> all apply to the history: the entry carries the given name and
  its timestamp prints the same date as the current date.
\<close>

definition isDoseToday :: "runtime \<Rightarrow> instant \<Rightarrow> string \<Rightarrow> MedicationLog \<Rightarrow> bool" where
  "isDoseToday rt now nm h \<longleftrightarrow>
     medName h = nm \<and> toDateString rt (timestamp h) = toDateString rt (Some now)"

definition takenCount :: "runtime \<Rightarrow> instant \<Rightarrow> MedicationLog list \<Rightarrow> string \<Rightarrow> nat" where
  "takenCount rt now hist nm = length (filter (isDoseToday rt now nm) hist)"

text \<open>The list a schedule field holds, empty when the field is absent.\<close>

definition listOf :: "'a list option \<Rightarrow> 'a list" where
  "listOf xs = (case xs of None \<Rightarrow> [] | Some ys \<Rightarrow> ys)"

text \<open>
  The operations read the stored profile with \<^verbatim>\<open>getProfile()\<close>, build the new
  profile, hand it to \<^verbatim>\<open>saveProfile\<close> and return it. In the model the stored profile
  is an argument and the result is the profile that is written back and returned.
  \<^verbatim>\<open>getProfile\<close> puts an empty list where the stored history is missing, so the history
  is always a list. Each operation runs to completion at once; its reads of the clock
  are one instant \<open>now\<close>.

  \<^verbatim>\<open>recordMedicationDose(medId, context = 'Manual')\<close>: the argument \<open>ctx\<close> is \<open>None\<close>
  when the caller passes no context.
\<close>

definition recordMedicationDose ::
  "runtime \<Rightarrow> instant \<Rightarrow> UserProfile \<Rightarrow> string \<Rightarrow> string option \<Rightarrow> UserProfile" where
  "recordMedicationDose rt now profile medId ctx =
     (case findIndex (\<lambda>m. med_id m = medId) (medications profile) of
        None \<Rightarrow> profile
      | Some medIndex \<Rightarrow>
          (let med = medications profile ! medIndex;
               logEntry = \<lparr> log_id = numberToString now,
                            medName = med_name med,
                            timestamp = Some now,
                            formattedDate = toLocaleString rt now,
                            log_context = Some (case ctx of None \<Rightarrow> ''Manual'' | Some c \<Rightarrow> c),
                            status = Taken \<rparr>;
               newHistory = logEntry # history profile;
               taken = length (filter (isDoseToday rt now (med_name med)) newHistory);
               target = getTargetDoses med;
               isFullyCompleted = (target \<le> taken);
               updatedMeds = (medications profile)
                               [medIndex := med\<lparr>takenToday := isFullyCompleted\<rparr>]
           in profile\<lparr>medications := updatedMeds, history := newHistory\<rparr>))"

text \<open>
  \<^verbatim>\<open>removeLastMedicationDose\<close>: the entry removed is the first one of the history, from
  its head, that carries the medication's name and today's date; the completion flag is
  evaluated again whether or not an entry was removed.
\<close>

definition removeLastMedicationDose ::
  "runtime \<Rightarrow> instant \<Rightarrow> UserProfile \<Rightarrow> string \<Rightarrow> UserProfile" where
  "removeLastMedicationDose rt now profile medId =
     (case findIndex (\<lambda>m. med_id m = medId) (medications profile) of
        None \<Rightarrow> profile
      | Some medIndex \<Rightarrow>
          (let med = medications profile ! medIndex;
               hist = (case findIndex (isDoseToday rt now (med_name med)) (history profile) of
                         None \<Rightarrow> history profile
                       | Some logIndexToRemove \<Rightarrow> splice1 logIndexToRemove (history profile));
               taken = length (filter (isDoseToday rt now (med_name med)) hist);
               target = getTargetDoses med;
               updatedMeds = (medications profile)
                               [medIndex := med\<lparr>takenToday := (target \<le> taken)\<rparr>]
           in profile\<lparr>medications := updatedMeds, history := hist\<rparr>))"

definition deleteMedication :: "UserProfile \<Rightarrow> string \<Rightarrow> UserProfile" where
  "deleteMedication profile medId =
     profile\<lparr>medications := filter (\<lambda>m. med_id m \<noteq> medId) (medications profile)\<rparr>"

definition resetDailyTracking :: "UserProfile \<Rightarrow> UserProfile" where
  "resetDailyTracking profile =
     profile\<lparr>medications := map (\<lambda>med. med\<lparr>takenToday := False\<rparr>) (medications profile)\<rparr>"

text \<open>
  \<^verbatim>\<open>getTodayDoseCount(history, medId)\<close>, the helper under the comment
  \<^verbatim>\<open>// Helper to count today's doses\<close>. It looks the medication's name up in the stored
  profile (\<open>stored\<close>); \<^verbatim>\<open>find(...)?.name\<close> is undefined when no medication has the id,
  and no \<^verbatim>\<open>medName\<close> equals undefined.
\<close>

definition getTodayDoseCount ::
  "runtime \<Rightarrow> instant \<Rightarrow> UserProfile \<Rightarrow> MedicationLog list \<Rightarrow> string \<Rightarrow> nat" where
  "getTodayDoseCount rt now stored hist medId =
     length (filter (\<lambda>h.
        medName h = medId \<or>
        (Some (medName h) =
           map_option med_name (find (\<lambda>m. med_id m = medId) (medications stored)) \<and>
         toDateString rt (timestamp h) = toDateString rt (Some now))) hist)"

section \<open>The adherence evaluator (components/MedicationManager.tsx)\<close>

text \<open>\<^verbatim>\<open>getDoseProgress(med)\<close> returns \<^verbatim>\<open>{ taken, total }\<close>, here a pair.\<close>

definition getDoseProgress ::
  "runtime \<Rightarrow> instant \<Rightarrow> UserProfile \<Rightarrow> Medication \<Rightarrow> nat \<times> nat" where
  "getDoseProgress rt now profile med =
     (let taken = length (filter (isDoseToday rt now (med_name med)) (history profile));
          targetCount =
            (case (scheduleType med, fixedTimes med, mealTriggers med) of
               (Fixed, Some ts, _) \<Rightarrow> (if length ts = 0 then 1 else length ts)
             | (Meal_relative, _, Some ms) \<Rightarrow> (if length ms = 0 then 1 else length ms)
             | _ \<Rightarrow> 1)
      in (taken, targetCount))"

text \<open>\<^verbatim>\<open>const isCompleted = taken >= total\<close>, as the medication card computes it.\<close>

definition isCompleted :: "runtime \<Rightarrow> instant \<Rightarrow> UserProfile \<Rightarrow> Medication \<Rightarrow> bool" where
  "isCompleted rt now profile med =
     (case getDoseProgress rt now profile med of (taken, total_doses) \<Rightarrow> total_doses \<le> taken)"

section \<open>The reminder poll (App.tsx)\<close>

text \<open>
  A poll tick is the current \<^verbatim>\<open>Date\<close> as its local-time getters show it.
  \<^verbatim>\<open>checkMedications\<close> reads \<^verbatim>\<open>getHours()\<close>, \<^verbatim>\<open>getMinutes()\<close> and \<^verbatim>\<open>getDate()\<close>, the
  day of the month; \<^verbatim>\<open>getFullYear()\<close> and \<^verbatim>\<open>getMonth()\<close> (0 for January) are kept
  as well, since the calendar day of a tick is its year, month and day of the month.
\<close>

record JsDate =
  localYear :: int
  localMonth :: int
  localDate :: int
  localHours :: int
  localMinutes :: int

text \<open>\<^verbatim>\<open>String.prototype.split\<close> with a one-character separator.\<close>

fun split_on :: "char \<Rightarrow> string \<Rightarrow> string list" where
  "split_on c [] = [[]]"
| "split_on c (x # xs) =
     (if x = c then [] # split_on c xs
      else (case split_on c xs of [] \<Rightarrow> [[x]] | part # parts \<Rightarrow> (x # part) # parts))"

text \<open>
  \<^verbatim>\<open>const [h, m] = timeStr.split(':').map(Number); return h * 60 + m\<close>. What
  \<^verbatim>\<open>Number\<close> makes of a string is the parameter \<open>num\<close>, with \<open>None\<close> for \<^verbatim>\<open>NaN\<close>;
  a missing second part is \<^verbatim>\<open>undefined\<close> and the sum is \<^verbatim>\<open>NaN\<close>.
\<close>

definition getMinutes :: "(string \<Rightarrow> real option) \<Rightarrow> string \<Rightarrow> real option" where
  "getMinutes num timeStr =
     (case map num (split_on CHR '':'' timeStr) of
        Some h # Some m # _ \<Rightarrow> Some (h * 60 + m)
      | _ \<Rightarrow> None)"

text \<open>
  \<^verbatim>\<open>Number\<close> on a string of decimal digits, which is what the two parts of an
  \<^verbatim>\<open>HH:MM\<close> time are: its value, and 0 for the empty string. Any other string is
  \<open>None\<close> here, while \<^verbatim>\<open>Number\<close> also reads surrounding blanks, a sign, a
  fraction, an exponent and hexadecimal digits. The general facts about the poll hold for
  every \<open>num\<close>; this instance is applied to the sample times \<^verbatim>\<open>08:00\<close> and
  \<^verbatim>\<open>20:00\<close> only, where it agrees with \<^verbatim>\<open>Number\<close>.
\<close>

definition digitValue :: "char \<Rightarrow> nat option" where
  "digitValue =
     map_of [(CHR ''0'', 0), (CHR ''1'', 1), (CHR ''2'', 2), (CHR ''3'', 3), (CHR ''4'', 4),
             (CHR ''5'', 5), (CHR ''6'', 6), (CHR ''7'', 7), (CHR ''8'', 8), (CHR ''9'', 9)]"

definition decimalNumber :: "string \<Rightarrow> real option" where
  "decimalNumber s =
     (case those (map digitValue s) of
        None \<Rightarrow> None
      | Some ds \<Rightarrow> Some (real (foldl (\<lambda>a d. 10 * a + d) 0 ds)))"

text \<open>
  A primary reminder, shown as a browser notification or as a toast. Its title is a
  fixed text; the body names the medication and its dosage.
\<close>

record Reminder =
  reminder_key :: string
  reminder_body :: string

text \<open>
  The body of the inner \<^verbatim>\<open>forEach\<close>, for one fixed time of one medication. The state
  is the set \<^verbatim>\<open>sentNotifications\<close> and the reminders shown so far. The key is the
  template string \<^verbatim>\<open>`${med.id}-${timeStr}-${now.getDate()}`\<close>, which the source
  annotates \<^verbatim>\<open>// Unique key per day\<close>.
\<close>

definition notifKeyOf :: "Medication \<Rightarrow> string \<Rightarrow> JsDate \<Rightarrow> string" where
  "notifKeyOf med timeStr now =
     med_id med @ ''-'' @ timeStr @ ''-'' @ numberToString (localDate now)"

definition checkTime ::
  "(string \<Rightarrow> real option) \<Rightarrow> JsDate \<Rightarrow> Medication \<Rightarrow> string \<Rightarrow>
   string set \<times> Reminder list \<Rightarrow> string set \<times> Reminder list" where
  "checkTime num now med timeStr st =
     (case st of (sent, shown) \<Rightarrow>
        (let currentMinutes = localHours now * 60 + localMinutes now;
             notifKey = notifKeyOf med timeStr now
         in case getMinutes num timeStr of
              None \<Rightarrow> st
            | Some scheduledMinutes \<Rightarrow>
                (let diff = real_of_int currentMinutes - scheduledMinutes
                 in if 0 \<le> diff \<and> diff \<le> 2 then
                      (if notifKey \<notin> sent then
                         (insert notifKey sent,
                          shown @ [\<lparr> reminder_key = notifKey,
                                      reminder_body = ''Es hora de tomar: '' @ med_name med @
                                                      '' ('' @ dosage med @ '')'' \<rparr>])
                       else st)
                    else st)))"

text \<open>The body of the outer \<^verbatim>\<open>forEach\<close>, for one medication, and the whole check.\<close>

definition checkMed ::
  "(string \<Rightarrow> real option) \<Rightarrow> JsDate \<Rightarrow> Medication \<Rightarrow>
   string set \<times> Reminder list \<Rightarrow> string set \<times> Reminder list" where
  "checkMed num now med st =
     (case (scheduleType med, fixedTimes med, takenToday med) of
        (Fixed, Some ts, False) \<Rightarrow> fold (checkTime num now med) ts st
      | _ \<Rightarrow> st)"

definition checkMedications ::
  "(string \<Rightarrow> real option) \<Rightarrow> JsDate \<Rightarrow> UserProfile \<Rightarrow>
   string set \<times> Reminder list \<Rightarrow> string set \<times> Reminder list" where
  "checkMedications num now profile st = fold (checkMed num now) (medications profile) st"

text \<open>
  The effect installs the interval only for a profile whose onboarding is complete; the
  timer then calls \<^verbatim>\<open>checkMedications\<close> once per tick, on the same profile and on the
  same \<^verbatim>\<open>sentNotifications\<close>, which lives as long as the session.
\<close>

definition poll ::
  "(string \<Rightarrow> real option) \<Rightarrow> UserProfile \<Rightarrow> JsDate list \<Rightarrow>
   string set \<times> Reminder list \<Rightarrow> string set \<times> Reminder list" where
  "poll num profile ticks st =
     (if onboardingComplete profile
      then fold (\<lambda>now. checkMedications num now profile) ticks st
      else st)"

text \<open>
  The trigger window of a fixed time at a tick: the time reads as a number of minutes and
  the current minute of the day is at most 2 minutes past it.
\<close>

definition inWindow :: "(string \<Rightarrow> real option) \<Rightarrow> JsDate \<Rightarrow> string \<Rightarrow> bool" where
  "inWindow num now timeStr \<longleftrightarrow>
     (case getMinutes num timeStr of
        None \<Rightarrow> False
      | Some s \<Rightarrow> 0 \<le> real_of_int (localHours now * 60 + localMinutes now) - s \<and>
                  real_of_int (localHours now * 60 + localMinutes now) - s \<le> 2)"

text \<open>
  The invariant of a session that starts with nothing sent: the keys in the set are the
  keys of the reminders shown, and no two reminders shown carry the same key.
\<close>

definition sentIsShown :: "string set \<times> Reminder list \<Rightarrow> bool" where
  "sentIsShown st \<longleftrightarrow>
     fst st = reminder_key ` set (snd st) \<and> distinct (map reminder_key (snd st))"

section \<open>Sample data\<close>

text \<open>\<^verbatim>\<open>DEFAULT_PROFILE\<close> of the storage service.\<close>

definition DEFAULT_PROFILE :: UserProfile where
  "DEFAULT_PROFILE =
     \<lparr> user_id = None, user_name = [], age = 0, gender = Other, height = 0, weight = 0,
       activityLevel = Sedentary, diagnoses = [], allowedFoods = [], forbiddenFoods = [],
       allergies = [], goals = [], medications = [], history = [],
       onboardingComplete = False, mealPlan = Some [], exerciseRoutine = Null \<rparr>"

text \<open>A browser in UTC, and an instant on 14 November 2023 (day 19675 after the epoch).\<close>

definition utc :: runtime where
  "utc = \<lparr> tzOffset = (\<lambda>t. 0), toLocaleString = (\<lambda>t. ''mar, 22:13'') \<rparr>"

definition now0 :: instant where
  "now0 = 1700000000000"

definition metformina :: Medication where
  "metformina =
     \<lparr> med_id = ''m1'', med_name = ''Metformina'', dosage = ''850 mg'',
       frequency = ''Cada 12 horas'', instructions = ''Con comida'', takenToday = False,
       requiresFood = Some True, scheduleType = Fixed,
       fixedTimes = Some [''08:00'', ''20:00''], mealTriggers = None \<rparr>"

definition aspirina :: Medication where
  "aspirina =
     \<lparr> med_id = ''m2'', med_name = ''Aspirina'', dosage = ''100 mg'',
       frequency = ''Una vez al dia'', instructions = [], takenToday = True,
       requiresFood = None, scheduleType = Meal_relative,
       fixedTimes = None, mealTriggers = Some [\<lparr> meal = Lunch, timing = Before \<rparr>] \<rparr>"

text \<open>A dose of Aspirina earlier on the day of \<open>now0\<close>, two of Metformina the day before.\<close>

definition aspirinaToday :: MedicationLog where
  "aspirinaToday =
     \<lparr> log_id = ''1699999000000'', medName = ''Aspirina'', timestamp = Some 1699999000000,
       formattedDate = ''mar, 21:56'', log_context = Some ''Manual'', status = Taken \<rparr>"

definition metforminaEvening :: MedicationLog where
  "metforminaEvening =
     \<lparr> log_id = ''1699905600000'', medName = ''Metformina'', timestamp = Some 1699905600000,
       formattedDate = ''lun, 20:00'', log_context = Some ''Manual'', status = Taken \<rparr>"

definition metforminaMorning :: MedicationLog where
  "metforminaMorning =
     \<lparr> log_id = ''1699862400000'', medName = ''Metformina'', timestamp = Some 1699862400000,
       formattedDate = ''lun, 08:00'', log_context = Some ''Manual'', status = Taken \<rparr>"

definition demoProfile :: UserProfile where
  "demoProfile =
     DEFAULT_PROFILE \<lparr> user_name := ''Ana'', medications := [metformina, aspirina],
                       history := [aspirinaToday, metforminaEvening, metforminaMorning],
                       onboardingComplete := True \<rparr>"

text \<open>
  The same profile as the day of \<open>now0\<close> begins for a user who completed Metformina the
  day before: the flag is still set, and no dose is dated today.
\<close>

definition morningProfile :: UserProfile where
  "morningProfile =
     DEFAULT_PROFILE \<lparr> user_name := ''Ana'',
                       medications := [metformina \<lparr> takenToday := True \<rparr>],
                       history := [metforminaEvening, metforminaMorning],
                       onboardingComplete := True \<rparr>"

text \<open>
  A dose of Aspirina in the last millisecond of the day before \<open>now0\<close>, less than 24
  hours before it.
\<close>

definition lastNight :: MedicationLog where
  "lastNight =
     \<lparr> log_id = ''1699919999999'', medName = ''Aspirina'', timestamp = Some 1699919999999,
       formattedDate = ''lun, 23:59'', log_context = Some ''Manual'', status = Taken \<rparr>"

text \<open>The last millisecond of the day of \<open>now0\<close> and the first one of the next day.\<close>

definition endOfDay :: instant where
  "endOfDay = 1700006399999"

definition startOfNextDay :: instant where
  "startOfNextDay = 1700006400000"

text \<open>Two poll ticks at 08:00, on 5 January and on 5 February 2024.\<close>

definition jan5 :: JsDate where
  "jan5 = \<lparr> localYear = 2024, localMonth = 0, localDate = 5, localHours = 8, localMinutes = 0 \<rparr>"

definition feb5 :: JsDate where
  "feb5 = \<lparr> localYear = 2024, localMonth = 1, localDate = 5, localHours = 8, localMinutes = 0 \<rparr>"

section \<open>Auxiliary facts\<close>

subsection \<open>Lists\<close>

lemma findIndex_None_iff: "findIndex P xs = None \<longleftrightarrow> (\<forall>x\<in>set xs. \<not> P x)"
  by (induction xs) auto

lemma findIndex_Some_bound: "findIndex P xs = Some i \<Longrightarrow> i < length xs"
  by (induction xs arbitrary: i) (auto split: if_splits)

lemma findIndex_Some_holds: "findIndex P xs = Some i \<Longrightarrow> P (xs ! i)"
  by (induction xs arbitrary: i) (auto split: if_splits)

lemma findIndex_Some_first: "findIndex P xs = Some i \<Longrightarrow> \<forall>x\<in>set (take i xs). \<not> P x"
  by (induction xs arbitrary: i) (auto split: if_splits)

lemma findIndex_Some_decomp:
  "findIndex P xs = Some i \<Longrightarrow> xs = take i xs @ (xs ! i) # drop (Suc i) xs"
  by (simp add: findIndex_Some_bound id_take_nth_drop)

lemma findIndex_update_same:
  "findIndex P xs = Some i \<Longrightarrow> P y \<Longrightarrow> findIndex P (xs[i := y]) = Some i"
  by (induction xs arbitrary: i) (auto split: if_splits)

lemma filter_distinct_key:
  "distinct (map f xs) \<Longrightarrow> findIndex (\<lambda>x. f x = k) xs = Some i \<Longrightarrow>
   filter (\<lambda>x. f x \<noteq> k) xs = splice1 i xs"
proof (induction xs arbitrary: i)
  case Nil
  then show ?case by simp
next
  case (Cons x xs)
  show ?case
  proof (cases "f x = k")
    case True
    with Cons.prems have "\<forall>y\<in>set xs. f y \<noteq> k" by (auto simp: image_iff)
    then have "filter (\<lambda>x. f x \<noteq> k) xs = xs" by (simp add: filter_id_conv)
    with True Cons.prems show ?thesis by (simp add: splice1_def)
  next
    case False
    with Cons.prems obtain j where j: "findIndex (\<lambda>x. f x = k) xs = Some j" "i = Suc j"
      by auto
    with Cons.IH [of j] Cons.prems False show ?thesis by (simp add: splice1_def)
  qed
qed

lemma filter_distinct_once:
  "distinct (map f xs) \<Longrightarrow> k \<in> f ` set xs \<Longrightarrow> length (filter (\<lambda>x. f x = k) xs) = 1"
  by (induction xs) (auto simp: filter_empty_conv image_iff)

lemma fold_inv:
  "(\<And>x s. I s \<Longrightarrow> I (f x s)) \<Longrightarrow> I s \<Longrightarrow> I (fold f xs s)"
  by (induction xs arbitrary: s) auto

lemma fold_mono:
  "(\<And>x s. fst s \<subseteq> fst (f x s)) \<Longrightarrow> fst s \<subseteq> fst (fold f xs s)"
proof (induction xs arbitrary: s)
  case Nil
  then show ?case by simp
next
  case (Cons x xs)
  have "fst s \<subseteq> fst (f x s)" by (rule Cons.prems)
  also have "\<dots> \<subseteq> fst (fold f xs (f x s))" by (rule Cons.IH) (rule Cons.prems)
  finally show ?case by simp
qed

lemma fold_hit:
  assumes mono: "\<And>x s. fst s \<subseteq> fst (f x s)"
    and hit: "\<And>s. k \<in> fst (f a s)"
    and mem: "a \<in> set xs"
  shows "k \<in> fst (fold f xs s)"
  using mem
proof (induction xs arbitrary: s)
  case Nil
  then show ?case by simp
next
  case (Cons x xs)
  show ?case
  proof (cases "a = x")
    case True
    have "k \<in> fst (f x s)" using hit True by simp
    with fold_mono [of f "f x s" xs, OF mono] show ?thesis by auto
  next
    case False
    with Cons show ?thesis by simp
  qed
qed

subsection \<open>The operations on an id that resolves\<close>

lemma getTargetDoses_pos: "1 \<le> getTargetDoses med"
  by (cases "scheduleType med"; cases "fixedTimes med"; cases "mealTriggers med")
     (auto simp: getTargetDoses_def Suc_le_eq)

lemma takenCount_pos_iff:
  "0 < takenCount rt now hist nm \<longleftrightarrow> findIndex (isDoseToday rt now nm) hist \<noteq> None"
  by (auto simp: takenCount_def findIndex_None_iff filter_empty_conv)

lemma recordMedicationDose_Some:
  assumes "findIndex (\<lambda>m. med_id m = medId) (medications p) = Some i"
  shows "recordMedicationDose rt now p medId ctx =
     p\<lparr>medications := (medications p)[i := (medications p ! i)
           \<lparr>takenToday := (getTargetDoses (medications p ! i) \<le>
               Suc (takenCount rt now (history p) (med_name (medications p ! i))))\<rparr>],
       history := \<lparr> log_id = numberToString now,
                    medName = med_name (medications p ! i),
                    timestamp = Some now,
                    formattedDate = toLocaleString rt now,
                    log_context = Some (case ctx of None \<Rightarrow> ''Manual'' | Some c \<Rightarrow> c),
                    status = Taken \<rparr> # history p\<rparr>"
  using assms
  by (simp add: recordMedicationDose_def Let_def takenCount_def isDoseToday_def)

lemma removeLastMedicationDose_Some:
  assumes "findIndex (\<lambda>m. med_id m = medId) (medications p) = Some i"
  shows "removeLastMedicationDose rt now p medId =
     p\<lparr>medications := (medications p)[i := (medications p ! i)
           \<lparr>takenToday := (getTargetDoses (medications p ! i) \<le>
               takenCount rt now
                 (case findIndex (isDoseToday rt now (med_name (medications p ! i))) (history p) of
                    None \<Rightarrow> history p | Some j \<Rightarrow> splice1 j (history p))
                 (med_name (medications p ! i)))\<rparr>],
       history := (case findIndex (isDoseToday rt now (med_name (medications p ! i))) (history p) of
                    None \<Rightarrow> history p | Some j \<Rightarrow> splice1 j (history p))\<rparr>"
  using assms
  by (simp add: removeLastMedicationDose_def Let_def takenCount_def)

subsection \<open>The sample data\<close>

lemmas sample_defs = demoProfile_def morningProfile_def DEFAULT_PROFILE_def metformina_def
  aspirina_def aspirinaToday_def metforminaEvening_def metforminaMorning_def
  lastNight_def endOfDay_def startOfNextDay_def utc_def now0_def

lemma demo_m1: "findIndex (\<lambda>m. med_id m = ''m1'') (medications demoProfile) = Some 0"
  by (simp add: sample_defs)

lemma demo_m2: "findIndex (\<lambda>m. med_id m = ''m2'') (medications demoProfile) = Some 1"
  by (simp add: sample_defs)

lemma demo_m9: "findIndex (\<lambda>m. med_id m = ''m9'') (medications demoProfile) = None"
  by (simp add: sample_defs)

lemma getMinutes_sample:
  "getMinutes decimalNumber ''08:00'' = Some 480"
  "getMinutes decimalNumber ''20:00'' = Some 1200"
  by (simp_all add: getMinutes_def decimalNumber_def digitValue_def)

section \<open>The target dose count\<close>

text \<open>
  C2. The target dose count of a medication with a fixed schedule is
  \<open>max 1 |fixedTimes|\<close>, that of a medication with a meal-relative schedule is
  \<open>max 1 |mealTriggers|\<close>, where an absent list counts as empty; the target is at
  least 1 for every medication.
\<close>

theorem getTargetDoses_max:
  "(scheduleType med = Fixed \<longrightarrow>
      getTargetDoses med = max 1 (length (listOf (fixedTimes med)))) \<and>
   (scheduleType med = Meal_relative \<longrightarrow>
      getTargetDoses med = max 1 (length (listOf (mealTriggers med)))) \<and>
   1 \<le> getTargetDoses med"
  by (cases "scheduleType med"; cases "fixedTimes med"; cases "mealTriggers med")
     (auto simp: getTargetDoses_def listOf_def max_def Suc_le_eq)

theorem getTargetDoses_max_witness:
  "scheduleType metformina = Fixed \<and> getTargetDoses metformina = 2 \<and>
   scheduleType aspirina = Meal_relative \<and> getTargetDoses aspirina = 1"
  using getTargetDoses_max [of metformina] getTargetDoses_max [of aspirina]
  by (simp add: metformina_def aspirina_def listOf_def)

section \<open>Recording a dose\<close>

text \<open>
  C3. When the id resolves to the medication at index \<open>i\<close>, \<open>recordMedicationDose\<close>
  puts exactly one new entry at the head of the history and keeps the old history behind
  it. The entry has status taken, the medication's current name, the given context
  (\<open>Manual\<close> when none is given) and the current instant as its timestamp, and the count
  of today's doses under that name grows by exactly 1. Nothing is assumed about the
  profile: the statement covers a medication whose target is already met.
\<close>

theorem recordMedicationDose_appends:
  assumes "findIndex (\<lambda>m. med_id m = medId) (medications p) = Some i"
  shows "history (recordMedicationDose rt now p medId ctx) =
           hd (history (recordMedicationDose rt now p medId ctx)) # history p \<and>
         status (hd (history (recordMedicationDose rt now p medId ctx))) = Taken \<and>
         medName (hd (history (recordMedicationDose rt now p medId ctx))) =
           med_name (medications p ! i) \<and>
         log_context (hd (history (recordMedicationDose rt now p medId ctx))) =
           Some (case ctx of None \<Rightarrow> ''Manual'' | Some c \<Rightarrow> c) \<and>
         timestamp (hd (history (recordMedicationDose rt now p medId ctx))) = Some now \<and>
         takenCount rt now (history (recordMedicationDose rt now p medId ctx))
             (med_name (medications p ! i)) =
           takenCount rt now (history p) (med_name (medications p ! i)) + 1"
  using assms
  by (simp add: recordMedicationDose_def Let_def takenCount_def isDoseToday_def)

theorem recordMedicationDose_appends_witness:
  "findIndex (\<lambda>m. med_id m = ''m1'') (medications demoProfile) = Some 0 \<and>
   takenCount utc now0 (history demoProfile) ''Metformina'' = 0 \<and>
   takenCount utc now0 (history (recordMedicationDose utc now0 demoProfile ''m1'' None))
     ''Metformina'' = 1 \<and>
   log_context (hd (history (recordMedicationDose utc now0 demoProfile ''m1'' None))) =
     Some ''Manual''"
proof -
  have n: "med_name (medications demoProfile ! 0) = ''Metformina''"
    by (simp add: sample_defs)
  have c: "takenCount utc now0 (history demoProfile) ''Metformina'' = 0"
    by (simp add: sample_defs takenCount_def isDoseToday_def toDateString_def localDay_def)
  show ?thesis
    using recordMedicationDose_appends [OF demo_m1, of utc now0 None] demo_m1
    by (simp add: n c)
qed

text \<open>
  C10. When the id resolves to the medication at index \<open>i\<close>, \<open>recordMedicationDose\<close>
  changes nothing but the head of the history and the \<open>takenToday\<close> field of that
  medication: the medication list keeps its length, every other medication is the same
  record, the target medication is the same record up to \<open>takenToday\<close>, the old history
  is the tail of the new one, and the profile with its old medication list and history
  put back is the old profile.
\<close>

theorem recordMedicationDose_frame:
  assumes "findIndex (\<lambda>m. med_id m = medId) (medications p) = Some i"
  shows "length (medications (recordMedicationDose rt now p medId ctx)) = length (medications p) \<and>
         (\<forall>j < length (medications p). j \<noteq> i \<longrightarrow>
            medications (recordMedicationDose rt now p medId ctx) ! j = medications p ! j) \<and>
         (medications (recordMedicationDose rt now p medId ctx) ! i)
            \<lparr>takenToday := takenToday (medications p ! i)\<rparr> = medications p ! i \<and>
         tl (history (recordMedicationDose rt now p medId ctx)) = history p \<and>
         length (history (recordMedicationDose rt now p medId ctx)) = Suc (length (history p)) \<and>
         (recordMedicationDose rt now p medId ctx)
            \<lparr>medications := medications p, history := history p\<rparr> = p"
  using findIndex_Some_bound [OF assms]
  by (simp add: recordMedicationDose_Some [OF assms])

theorem recordMedicationDose_frame_witness:
  "findIndex (\<lambda>m. med_id m = ''m1'') (medications demoProfile) = Some 0 \<and>
   (1::nat) < length (medications demoProfile) \<and> (1::nat) \<noteq> 0 \<and>
   medications (recordMedicationDose utc now0 demoProfile ''m1'' None) ! 1 =
     medications demoProfile ! 1 \<and>
   tl (history (recordMedicationDose utc now0 demoProfile ''m1'' None)) = history demoProfile"
proof -
  have l: "(1::nat) < length (medications demoProfile)"
    by (simp add: demoProfile_def DEFAULT_PROFILE_def)
  show ?thesis
    using recordMedicationDose_frame [OF demo_m1, of utc now0 None] demo_m1 l
    by simp
qed

section \<open>Undoing a dose\<close>

text \<open>
  C4, as the code has it. Let the id resolve to the medication at index \<open>i\<close>. If the
  history holds an entry with that medication's name dated today, \<open>removeLastMedicationDose\<close>
  removes exactly one entry: the first such entry from the head of the history, which is
  the one added last, since doses are added at the head. Every entry before it and after
  it stays, in the same order, so the entries of other days and of other names are
  untouched. If the history holds no such entry, the history is returned as it is and the
  medication's \<open>takenToday\<close> is evaluated again, to false. In both cases nothing else
  changes: every other medication is the same record, the target medication is the same
  record up to \<open>takenToday\<close>, and so is the rest of the profile.
\<close>

theorem removeLastMedicationDose_removes_newest:
  assumes "findIndex (\<lambda>m. med_id m = medId) (medications p) = Some i"
  shows "(0 < takenCount rt now (history p) (med_name (medications p ! i)) \<longrightarrow>
            (\<exists>ys e zs. history p = ys @ e # zs \<and>
               history (removeLastMedicationDose rt now p medId) = ys @ zs \<and>
               isDoseToday rt now (med_name (medications p ! i)) e \<and>
               (\<forall>h\<in>set ys. \<not> isDoseToday rt now (med_name (medications p ! i)) h))) \<and>
         (takenCount rt now (history p) (med_name (medications p ! i)) = 0 \<longrightarrow>
            history (removeLastMedicationDose rt now p medId) = history p \<and>
            \<not> takenToday (medications (removeLastMedicationDose rt now p medId) ! i)) \<and>
         length (medications (removeLastMedicationDose rt now p medId)) =
           length (medications p) \<and>
         (\<forall>j < length (medications p). j \<noteq> i \<longrightarrow>
            medications (removeLastMedicationDose rt now p medId) ! j = medications p ! j) \<and>
         (medications (removeLastMedicationDose rt now p medId) ! i)
            \<lparr>takenToday := takenToday (medications p ! i)\<rparr> = medications p ! i \<and>
         (removeLastMedicationDose rt now p medId)
            \<lparr>medications := medications p, history := history p\<rparr> = p"
proof -
  let ?nm = "med_name (medications p ! i)"
  let ?p' = "removeLastMedicationDose rt now p medId"
  note eq = removeLastMedicationDose_Some [OF assms, of rt now]
  have b: "i < length (medications p)"
    by (rule findIndex_Some_bound [OF assms])
  have pos: "\<exists>ys e zs. history p = ys @ e # zs \<and> history ?p' = ys @ zs \<and>
               isDoseToday rt now ?nm e \<and> (\<forall>h\<in>set ys. \<not> isDoseToday rt now ?nm h)"
    if "0 < takenCount rt now (history p) ?nm"
  proof -
    from that obtain j where j: "findIndex (isDoseToday rt now ?nm) (history p) = Some j"
      by (auto simp: takenCount_pos_iff)
    have "history p = take j (history p) @ (history p ! j) # drop (Suc j) (history p)"
      by (rule findIndex_Some_decomp [OF j])
    moreover have "history ?p' = take j (history p) @ drop (Suc j) (history p)"
      by (simp add: eq j splice1_def)
    moreover have "isDoseToday rt now ?nm (history p ! j)"
      by (rule findIndex_Some_holds [OF j])
    moreover have "\<forall>h\<in>set (take j (history p)). \<not> isDoseToday rt now ?nm h"
      by (rule findIndex_Some_first [OF j])
    ultimately show ?thesis by blast
  qed
  have none: "history ?p' = history p \<and> \<not> takenToday (medications ?p' ! i)"
    if z: "takenCount rt now (history p) ?nm = 0"
  proof -
    from z have n: "findIndex (isDoseToday rt now ?nm) (history p) = None"
      using takenCount_pos_iff [of rt now "history p" ?nm] by simp
    have "1 \<le> getTargetDoses (medications p ! i)"
      by (rule getTargetDoses_pos)
    with z b show ?thesis by (simp add: eq n)
  qed
  have frame: "length (medications ?p') = length (medications p) \<and>
         (\<forall>j < length (medications p). j \<noteq> i \<longrightarrow> medications ?p' ! j = medications p ! j) \<and>
         (medications ?p' ! i)\<lparr>takenToday := takenToday (medications p ! i)\<rparr> = medications p ! i \<and>
         ?p'\<lparr>medications := medications p, history := history p\<rparr> = p"
    using b by (simp add: eq)
  from pos none frame show ?thesis by blast
qed

theorem removeLastMedicationDose_removes_newest_witness:
  "findIndex (\<lambda>m. med_id m = ''m2'') (medications demoProfile) = Some 1 \<and>
   0 < takenCount utc now0 (history demoProfile) (med_name (medications demoProfile ! 1)) \<and>
   (\<exists>ys e zs. history demoProfile = ys @ e # zs \<and>
      history (removeLastMedicationDose utc now0 demoProfile ''m2'') = ys @ zs \<and>
      isDoseToday utc now0 (med_name (medications demoProfile ! 1)) e \<and>
      (\<forall>h\<in>set ys. \<not> isDoseToday utc now0 (med_name (medications demoProfile ! 1)) h)) \<and>
   findIndex (\<lambda>m. med_id m = ''m1'') (medications demoProfile) = Some 0 \<and>
   takenCount utc now0 (history demoProfile) (med_name (medications demoProfile ! 0)) = 0 \<and>
   history (removeLastMedicationDose utc now0 demoProfile ''m1'') = history demoProfile"
proof -
  have c2: "0 < takenCount utc now0 (history demoProfile) (med_name (medications demoProfile ! 1))"
    by (simp add: sample_defs takenCount_def isDoseToday_def toDateString_def localDay_def)
  have c1: "takenCount utc now0 (history demoProfile) (med_name (medications demoProfile ! 0)) = 0"
    by (simp add: sample_defs takenCount_def isDoseToday_def toDateString_def localDay_def)
  show ?thesis
    using removeLastMedicationDose_removes_newest [OF demo_m2, of utc now0]
          removeLastMedicationDose_removes_newest [OF demo_m1, of utc now0]
          demo_m1 demo_m2 c1 c2
    by simp
qed

text \<open>
  The claim as written fails where it says that without an entry of today the profile
  comes back unchanged. In \<open>morningProfile\<close> the id \<open>m1\<close> resolves, no dose of
  Metformina is dated today, and the flag left set the day before is cleared: the
  profile returned differs from the one stored.
\<close>

theorem removeLastMedicationDose_without_entry_changes_profile:
  "findIndex (\<lambda>m. med_id m = ''m1'') (medications morningProfile) = Some 0 \<and>
   takenCount utc now0 (history morningProfile) (med_name (medications morningProfile ! 0)) = 0 \<and>
   removeLastMedicationDose utc now0 morningProfile ''m1'' \<noteq> morningProfile"
  by (simp add: removeLastMedicationDose_def sample_defs getTargetDoses_def takenCount_def
        isDoseToday_def toDateString_def localDay_def Let_def)

text \<open>
  C5, as the code has it. Let the id resolve to the medication at index \<open>i\<close>, let a
  dose be recorded at \<open>now1\<close> and undone at \<open>now2\<close>, two instants of the same local
  calendar day. Then the
  history is the history before the dose, entry for entry, and so has its length; the
  medication's \<open>isCompleted\<close>, as the evaluator computes it from the history and the
  schedule, is what it was before the dose. The stored \<open>takenToday\<close> ends up equal to
  that value, so the whole profile is restored whenever the flag agreed with the
  evaluator before the dose.
\<close>

theorem record_then_undo_restores:
  assumes "findIndex (\<lambda>m. med_id m = medId) (medications p) = Some i"
    and "toDateString rt (Some now1) = toDateString rt (Some now2)"
  shows "history (removeLastMedicationDose rt now2
                    (recordMedicationDose rt now1 p medId ctx) medId) = history p \<and>
         length (history (removeLastMedicationDose rt now2
                    (recordMedicationDose rt now1 p medId ctx) medId)) = length (history p) \<and>
         isCompleted rt now2
            (removeLastMedicationDose rt now2 (recordMedicationDose rt now1 p medId ctx) medId)
            (medications (removeLastMedicationDose rt now2
                           (recordMedicationDose rt now1 p medId ctx) medId) ! i) =
           isCompleted rt now2 p (medications p ! i) \<and>
         takenToday (medications (removeLastMedicationDose rt now2
                           (recordMedicationDose rt now1 p medId ctx) medId) ! i) =
           isCompleted rt now2 p (medications p ! i) \<and>
         (takenToday (medications p ! i) = isCompleted rt now2 p (medications p ! i) \<longrightarrow>
            removeLastMedicationDose rt now2 (recordMedicationDose rt now1 p medId ctx) medId = p)"
proof -
  let ?m = "medications p ! i"
  let ?p1 = "recordMedicationDose rt now1 p medId ctx"
  let ?p2 = "removeLastMedicationDose rt now2 ?p1 medId"
  note r = recordMedicationDose_Some [OF assms(1), of rt now1 ctx]
  have b: "i < length (medications p)"
    by (rule findIndex_Some_bound [OF assms(1)])
  have idm: "med_id ?m = medId"
    by (rule findIndex_Some_holds [OF assms(1)])
  have f1: "findIndex (\<lambda>m. med_id m = medId) (medications ?p1) = Some i"
    using findIndex_update_same [OF assms(1), of "?m\<lparr>takenToday := _\<rparr>"] idm
    by (simp add: r)
  have m1: "med_name (medications ?p1 ! i) = med_name ?m"
    and t1: "getTargetDoses (medications ?p1 ! i) = getTargetDoses ?m"
    using b by (simp_all add: r getTargetDoses_def)
  have h1: "findIndex (isDoseToday rt now2 (med_name ?m)) (history ?p1) = Some 0"
    using assms(2) by (simp add: r isDoseToday_def)
  have hist: "history ?p2 = history p"
    by (simp add: removeLastMedicationDose_Some [OF f1] m1 h1) (simp add: r splice1_def)
  have comp: "isCompleted rt now2 p ?m \<longleftrightarrow>
              getTargetDoses ?m \<le> takenCount rt now2 (history p) (med_name ?m)"
    by (simp add: isCompleted_def getDoseProgress_def getTargetDoses_def takenCount_def)
  have meds: "medications ?p2 =
              (medications p)[i := ?m\<lparr>takenToday := isCompleted rt now2 p ?m\<rparr>]"
    using b
    by (simp add: removeLastMedicationDose_Some [OF f1] m1 t1 h1 comp)
       (simp add: r splice1_def)
  have ni: "medications ?p2 ! i = ?m\<lparr>takenToday := isCompleted rt now2 p ?m\<rparr>"
    using b by (simp add: meds)
  have c2: "isCompleted rt now2 ?p2 (medications ?p2 ! i) = isCompleted rt now2 p ?m"
    by (simp add: ni) (simp add: isCompleted_def getDoseProgress_def hist)
  have others: "?p2\<lparr>medications := medications p, history := history p\<rparr> = p"
    by (simp add: removeLastMedicationDose_Some [OF f1]) (simp add: r)
  have full: "?p2 = p" if "takenToday ?m = isCompleted rt now2 p ?m"
  proof -
    from that have "?m\<lparr>takenToday := isCompleted rt now2 p ?m\<rparr> = ?m" by simp
    with meds have "medications ?p2 = medications p" by simp
    with hist others show ?thesis
      by (metis UserProfile.surjective UserProfile.update_convs(13,14))
  qed
  from hist c2 ni full show ?thesis by simp
qed

theorem record_then_undo_restores_witness:
  "findIndex (\<lambda>m. med_id m = ''m1'') (medications demoProfile) = Some 0 \<and>
   toDateString utc (Some now0) = toDateString utc (Some (now0 + 60000)) \<and>
   takenToday (medications demoProfile ! 0) =
     isCompleted utc (now0 + 60000) demoProfile (medications demoProfile ! 0) \<and>
   removeLastMedicationDose utc (now0 + 60000)
     (recordMedicationDose utc now0 demoProfile ''m1'' None) ''m1'' = demoProfile"
proof -
  have d: "toDateString utc (Some now0) = toDateString utc (Some (now0 + 60000))"
    by (simp add: toDateString_def localDay_def utc_def now0_def)
  have c: "takenToday (medications demoProfile ! 0) =
     isCompleted utc (now0 + 60000) demoProfile (medications demoProfile ! 0)"
    by (simp add: sample_defs isCompleted_def getDoseProgress_def isDoseToday_def
          toDateString_def localDay_def)
  show ?thesis
    using record_then_undo_restores [OF demo_m1 d, of None] demo_m1 d c
    by simp
qed

text \<open>
  The claim as written fails when the day changes between the two calls, however close
  they are. A dose of Metformina recorded in the last millisecond of a day and undone one
  millisecond later is not removed: for the undo it is an entry of the day before, and
  the history keeps its four entries where it had three before the dose.
\<close>

theorem record_then_undo_across_midnight:
  "findIndex (\<lambda>m. med_id m = ''m1'') (medications demoProfile) = Some 0 \<and>
   localDay utc startOfNextDay = localDay utc endOfDay + 1 \<and>
   startOfNextDay - endOfDay = 1 \<and>
   length (history demoProfile) = 3 \<and>
   length (history (removeLastMedicationDose utc startOfNextDay
                      (recordMedicationDose utc endOfDay demoProfile ''m1'' None) ''m1'')) = 4"
  by (simp add: recordMedicationDose_def removeLastMedicationDose_def sample_defs
        isDoseToday_def toDateString_def localDay_def Let_def)

section \<open>The completion flag\<close>

text \<open>
  C1, as the code has it. When the id resolves to the medication at index \<open>i\<close>, then
  after \<open>recordMedicationDose\<close> and after \<open>removeLastMedicationDose\<close> the stored
  \<open>takenToday\<close> of that medication is true exactly when the number of entries of the
  new history that carry its name and today's date reaches its target dose count.
  \<open>resetDailyTracking\<close> does not consult the history: it leaves every medication with
  \<open>takenToday\<close> false.
\<close>

theorem takenToday_recomputed_for_target:
  assumes "findIndex (\<lambda>m. med_id m = medId) (medications p) = Some i"
  shows "(takenToday (medications (recordMedicationDose rt now p medId ctx) ! i) \<longleftrightarrow>
            getTargetDoses (medications (recordMedicationDose rt now p medId ctx) ! i) \<le>
            takenCount rt now (history (recordMedicationDose rt now p medId ctx))
              (med_name (medications (recordMedicationDose rt now p medId ctx) ! i))) \<and>
         (takenToday (medications (removeLastMedicationDose rt now p medId) ! i) \<longleftrightarrow>
            getTargetDoses (medications (removeLastMedicationDose rt now p medId) ! i) \<le>
            takenCount rt now (history (removeLastMedicationDose rt now p medId))
              (med_name (medications (removeLastMedicationDose rt now p medId) ! i))) \<and>
         (\<forall>m \<in> set (medications (resetDailyTracking p)). \<not> takenToday m)"
proof -
  have b: "i < length (medications p)"
    by (rule findIndex_Some_bound [OF assms])
  have r: "takenToday (medications (recordMedicationDose rt now p medId ctx) ! i) \<longleftrightarrow>
            getTargetDoses (medications (recordMedicationDose rt now p medId ctx) ! i) \<le>
            takenCount rt now (history (recordMedicationDose rt now p medId ctx))
              (med_name (medications (recordMedicationDose rt now p medId ctx) ! i))"
    using b
    by (simp add: recordMedicationDose_Some [OF assms] getTargetDoses_def
                  takenCount_def isDoseToday_def)
  have u: "takenToday (medications (removeLastMedicationDose rt now p medId) ! i) \<longleftrightarrow>
            getTargetDoses (medications (removeLastMedicationDose rt now p medId) ! i) \<le>
            takenCount rt now (history (removeLastMedicationDose rt now p medId))
              (med_name (medications (removeLastMedicationDose rt now p medId) ! i))"
    using b
    by (simp add: removeLastMedicationDose_Some [OF assms] getTargetDoses_def)
  have z: "\<forall>m \<in> set (medications (resetDailyTracking p)). \<not> takenToday m"
    by (auto simp: resetDailyTracking_def)
  from r u z show ?thesis by blast
qed

theorem takenToday_recomputed_for_target_witness:
  "findIndex (\<lambda>m. med_id m = ''m1'') (medications demoProfile) = Some 0 \<and>
   (takenToday (medications (recordMedicationDose utc now0 demoProfile ''m1'' None) ! 0) \<longleftrightarrow>
      getTargetDoses (medications (recordMedicationDose utc now0 demoProfile ''m1'' None) ! 0) \<le>
      takenCount utc now0 (history (recordMedicationDose utc now0 demoProfile ''m1'' None))
        (med_name (medications (recordMedicationDose utc now0 demoProfile ''m1'' None) ! 0))) \<and>
   aspirina\<lparr>takenToday := False\<rparr> \<in> set (medications (resetDailyTracking demoProfile)) \<and>
   \<not> takenToday (aspirina\<lparr>takenToday := False\<rparr>)"
proof -
  have m: "aspirina\<lparr>takenToday := False\<rparr> \<in> set (medications (resetDailyTracking demoProfile))"
    by (simp add: resetDailyTracking_def demoProfile_def DEFAULT_PROFILE_def)
  show ?thesis
    using takenToday_recomputed_for_target [OF demo_m1, of utc now0 None] demo_m1 m
    by simp
qed

text \<open>
  The claim as written fails for \<open>resetDailyTracking\<close>. In \<open>demoProfile\<close> Aspirina
  has a target of one dose and one dose dated today; after the reset its flag is false
  although today's count reaches the target.
\<close>

theorem resetDailyTracking_clears_completed_flag:
  "\<not> takenToday (medications (resetDailyTracking demoProfile) ! 1) \<and>
   getTargetDoses (medications (resetDailyTracking demoProfile) ! 1) \<le>
     takenCount utc now0 (history (resetDailyTracking demoProfile))
       (med_name (medications (resetDailyTracking demoProfile) ! 1))"
  by (simp add: resetDailyTracking_def sample_defs getTargetDoses_def takenCount_def
        isDoseToday_def toDateString_def localDay_def)

section \<open>Unknown ids and deletion\<close>

text \<open>
  C7. When no medication of the profile has the given id, \<open>recordMedicationDose\<close>,
  \<open>removeLastMedicationDose\<close> and \<open>deleteMedication\<close> each return the profile as it
  is. The three are total functions with a profile as their value: there is no error
  result for a caller to receive.
\<close>

theorem unknown_id_is_noop:
  assumes "findIndex (\<lambda>m. med_id m = medId) (medications p) = None"
  shows "recordMedicationDose rt now p medId ctx = p \<and>
         removeLastMedicationDose rt now p medId = p \<and>
         deleteMedication p medId = p"
proof -
  have "\<forall>m\<in>set (medications p). med_id m \<noteq> medId"
    using assms by (simp add: findIndex_None_iff)
  then have "filter (\<lambda>m. med_id m \<noteq> medId) (medications p) = medications p"
    by (simp add: filter_id_conv)
  then show ?thesis
    using assms
    by (simp add: recordMedicationDose_def removeLastMedicationDose_def deleteMedication_def)
qed

theorem unknown_id_is_noop_witness:
  "findIndex (\<lambda>m. med_id m = ''m9'') (medications demoProfile) = None \<and>
   recordMedicationDose utc now0 demoProfile ''m9'' None = demoProfile \<and>
   removeLastMedicationDose utc now0 demoProfile ''m9'' = demoProfile \<and>
   deleteMedication demoProfile ''m9'' = demoProfile"
  using unknown_id_is_noop [OF demo_m9, of utc now0 None] demo_m9
  by simp

text \<open>
  C8. When the id resolves to the medication at index \<open>i\<close>, \<open>deleteMedication\<close> keeps,
  in their order, the medications with another id and drops the one at index \<open>i\<close>.
  Ids are unique in the data model, and then the new list is the old one without its
  element at index \<open>i\<close>, one shorter. The history is returned as it is, the entries
  under the deleted medication's name included, and the profile with its old medication
  list put back is the old profile.
\<close>

theorem deleteMedication_frame:
  assumes "findIndex (\<lambda>m. med_id m = medId) (medications p) = Some i"
  shows "medications (deleteMedication p medId) =
           filter (\<lambda>m. med_id m \<noteq> medId) (medications p) \<and>
         medications p ! i \<notin> set (medications (deleteMedication p medId)) \<and>
         (\<forall>m\<in>set (medications p). med_id m \<noteq> medId \<longrightarrow>
            m \<in> set (medications (deleteMedication p medId))) \<and>
         (distinct (map med_id (medications p)) \<longrightarrow>
            medications (deleteMedication p medId) = splice1 i (medications p) \<and>
            Suc (length (medications (deleteMedication p medId))) = length (medications p)) \<and>
         history (deleteMedication p medId) = history p \<and>
         (deleteMedication p medId)\<lparr>medications := medications p\<rparr> = p"
proof -
  have b: "i < length (medications p)"
    by (rule findIndex_Some_bound [OF assms])
  have idm: "med_id (medications p ! i) = medId"
    by (rule findIndex_Some_holds [OF assms])
  have d: "medications (deleteMedication p medId) = splice1 i (medications p) \<and>
           Suc (length (medications (deleteMedication p medId))) = length (medications p)"
    if "distinct (map med_id (medications p))"
    using filter_distinct_key [OF that assms] b
    by (auto simp: deleteMedication_def splice1_def)
  show ?thesis
    using idm d by (auto simp: deleteMedication_def)
qed

theorem deleteMedication_frame_witness:
  "findIndex (\<lambda>m. med_id m = ''m1'') (medications demoProfile) = Some 0 \<and>
   distinct (map med_id (medications demoProfile)) \<and>
   aspirina \<in> set (medications demoProfile) \<and> med_id aspirina \<noteq> ''m1'' \<and>
   medications (deleteMedication demoProfile ''m1'') = [aspirina] \<and>
   history (deleteMedication demoProfile ''m1'') = history demoProfile"
proof -
  have d: "distinct (map med_id (medications demoProfile))"
    by (simp add: sample_defs)
  have a: "aspirina \<in> set (medications demoProfile)" "med_id aspirina \<noteq> ''m1''"
    by (simp_all add: demoProfile_def DEFAULT_PROFILE_def aspirina_def)
  have s: "splice1 0 (medications demoProfile) = [aspirina]"
    by (simp add: splice1_def demoProfile_def DEFAULT_PROFILE_def)
  from deleteMedication_frame [OF demo_m1] d
  have "medications (deleteMedication demoProfile ''m1'') = splice1 0 (medications demoProfile)"
    and "history (deleteMedication demoProfile ''m1'') = history demoProfile"
    by blast+
  with demo_m1 d a s show ?thesis
    by simp
qed

section \<open>Counting today's doses\<close>

text \<open>
  C6. The today-dose count is \<open>takenCount\<close>, the count that \<open>recordMedicationDose\<close>
  and \<open>removeLastMedicationDose\<close> compare with the target and that the evaluator
  returns as \<open>taken\<close>. For every history and name it is the number of positions of the
  history whose entry has that name as its \<open>medName\<close> and a timestamp on the local
  calendar day of the current instant. An entry with another name, with a timestamp of
  another local day or with a timestamp that is no date adds nothing to the count,
  wherever it stands in the history; an entry with the name and a timestamp of today
  adds exactly one. The comparison is between calendar days, not between instants: how
  many hours lie between the entry and the current instant plays no part.
\<close>

theorem takenCount_counts_name_and_day:
  "takenCount rt now hist nm =
     card {i. i < length hist \<and> medName (hist ! i) = nm \<and>
              (\<exists>t. timestamp (hist ! i) = Some t \<and> localDay rt t = localDay rt now)} \<and>
   fst (getDoseProgress rt now p med) = takenCount rt now (history p) (med_name med) \<and>
   (medName h \<noteq> nm \<or> (\<forall>t. timestamp h = Some t \<longrightarrow> localDay rt t \<noteq> localDay rt now) \<longrightarrow>
      takenCount rt now (xs @ h # ys) nm = takenCount rt now (xs @ ys) nm) \<and>
   (medName h = nm \<and> timestamp h = Some t \<and> localDay rt t = localDay rt now \<longrightarrow>
      takenCount rt now (xs @ h # ys) nm = Suc (takenCount rt now (xs @ ys) nm))"
proof -
  have iff: "isDoseToday rt now nm e \<longleftrightarrow>
             medName e = nm \<and> (\<exists>t. timestamp e = Some t \<and> localDay rt t = localDay rt now)" for e
    by (cases "timestamp e") (auto simp: isDoseToday_def toDateString_def)
  have "takenCount rt now hist nm = card {i. i < length hist \<and> isDoseToday rt now nm (hist ! i)}"
    by (simp add: takenCount_def length_filter_conv_card)
  then have c: "takenCount rt now hist nm =
     card {i. i < length hist \<and> medName (hist ! i) = nm \<and>
              (\<exists>t. timestamp (hist ! i) = Some t \<and> localDay rt t = localDay rt now)}"
    by (simp add: iff)
  have e: "fst (getDoseProgress rt now p med) = takenCount rt now (history p) (med_name med)"
    by (simp add: getDoseProgress_def Let_def takenCount_def)
  have n: "takenCount rt now (xs @ h # ys) nm = takenCount rt now (xs @ ys) nm"
    if "medName h \<noteq> nm \<or> (\<forall>t. timestamp h = Some t \<longrightarrow> localDay rt t \<noteq> localDay rt now)"
  proof -
    from that have "\<not> isDoseToday rt now nm h" by (auto simp: iff)
    then show ?thesis by (simp add: takenCount_def)
  qed
  have y: "takenCount rt now (xs @ h # ys) nm = Suc (takenCount rt now (xs @ ys) nm)"
    if "medName h = nm \<and> timestamp h = Some t \<and> localDay rt t = localDay rt now"
  proof -
    from that have "isDoseToday rt now nm h" by (auto simp: iff)
    then show ?thesis by (simp add: takenCount_def)
  qed
  from c e n y show ?thesis by blast
qed

theorem takenCount_counts_name_and_day_witness:
  "medName lastNight = ''Aspirina'' \<and>
   timestamp lastNight = Some 1699919999999 \<and>
   localDay utc 1699919999999 \<noteq> localDay utc now0 \<and>
   now0 - 1699919999999 < 86400000 \<and>
   takenCount utc now0 ([aspirinaToday] @ lastNight # [metforminaEvening]) ''Aspirina'' =
     takenCount utc now0 ([aspirinaToday] @ [metforminaEvening]) ''Aspirina'' \<and>
   medName aspirinaToday = ''Aspirina'' \<and> timestamp aspirinaToday = Some 1699999000000 \<and>
   localDay utc 1699999000000 = localDay utc now0 \<and>
   takenCount utc now0 ([] @ aspirinaToday # [lastNight]) ''Aspirina'' =
     Suc (takenCount utc now0 ([] @ [lastNight]) ''Aspirina'')"
proof -
  have a: "medName lastNight = ''Aspirina''"
    by (simp add: lastNight_def)
  have b: "\<forall>t. timestamp lastNight = Some t \<longrightarrow> localDay utc t \<noteq> localDay utc now0"
    by (simp add: lastNight_def localDay_def utc_def now0_def)
  have b': "timestamp lastNight = Some 1699919999999"
    "localDay utc 1699919999999 \<noteq> localDay utc now0"
    by (simp_all add: lastNight_def localDay_def utc_def now0_def)
  have c: "now0 - 1699919999999 < 86400000"
    by (simp add: now0_def)
  have d: "medName aspirinaToday = ''Aspirina''" "timestamp aspirinaToday = Some 1699999000000"
    by (simp_all add: aspirinaToday_def)
  have e: "localDay utc 1699999000000 = localDay utc now0"
    by (simp add: localDay_def utc_def now0_def)
  from takenCount_counts_name_and_day
         [of utc now0 _ "''Aspirina''" _ _ lastNight "[aspirinaToday]" "[metforminaEvening]"] b
  have f: "takenCount utc now0 ([aspirinaToday] @ lastNight # [metforminaEvening]) ''Aspirina'' =
           takenCount utc now0 ([aspirinaToday] @ [metforminaEvening]) ''Aspirina''"
    by blast
  from takenCount_counts_name_and_day
         [of utc now0 _ "''Aspirina''" _ _ aspirinaToday "[]" "[lastNight]" 1699999000000] d e
  have g: "takenCount utc now0 ([] @ aspirinaToday # [lastNight]) ''Aspirina'' =
           Suc (takenCount utc now0 ([] @ [lastNight]) ''Aspirina'')"
    by blast
  from a b' c d e f g show ?thesis by blast
qed

text \<open>
  The storage service also holds a helper \<open>getTodayDoseCount\<close> that nothing calls. It
  takes an id, looks the name up in the stored profile and, besides the entries with that
  name and today's date, accepts every entry whose \<open>medName\<close> is the text of the id.
  The operations write the medication's name into \<open>medName\<close>; on a history without an
  entry named like the id the helper returns the same count.
\<close>

lemma getTodayDoseCount_agrees:
  assumes "find (\<lambda>m. med_id m = medId) (medications stored) = Some med"
    and "\<forall>h\<in>set hist. medName h \<noteq> medId"
  shows "getTodayDoseCount rt now stored hist medId = takenCount rt now hist (med_name med)"
proof -
  have "filter (\<lambda>h. medName h = medId \<or>
          (Some (medName h) =
             map_option med_name (find (\<lambda>m. med_id m = medId) (medications stored)) \<and>
           toDateString rt (timestamp h) = toDateString rt (Some now))) hist =
        filter (isDoseToday rt now (med_name med)) hist"
    using assms by (intro filter_cong) (auto simp: isDoseToday_def)
  then show ?thesis by (simp add: getTodayDoseCount_def takenCount_def)
qed

section \<open>The reminder poll\<close>

lemma checkTime_cases:
  "checkTime num now med timeStr (sent, shown) =
     (if inWindow num now timeStr \<and> notifKeyOf med timeStr now \<notin> sent
      then (insert (notifKeyOf med timeStr now) sent,
            shown @ [\<lparr> reminder_key = notifKeyOf med timeStr now,
                        reminder_body = ''Es hora de tomar: '' @ med_name med @
                                        '' ('' @ dosage med @ '')'' \<rparr>])
      else (sent, shown))"
  by (simp add: checkTime_def inWindow_def Let_def split: option.splits)

lemma checkTime_inv: "sentIsShown st \<Longrightarrow> sentIsShown (checkTime num now med timeStr st)"
  by (cases st) (auto simp: checkTime_cases sentIsShown_def)

lemma checkTime_mono: "fst st \<subseteq> fst (checkTime num now med timeStr st)"
  by (cases st) (auto simp: checkTime_cases)

lemma checkTime_hit:
  "inWindow num now timeStr \<Longrightarrow>
   notifKeyOf med timeStr now \<in> fst (checkTime num now med timeStr st)"
  by (cases st) (auto simp: checkTime_cases)

lemma fold_checkTime_inv:
  "sentIsShown st \<Longrightarrow> sentIsShown (fold (checkTime num now med) ts st)"
  by (rule fold_inv [where I = sentIsShown]) (rule checkTime_inv)

lemma fold_checkTime_mono: "fst st \<subseteq> fst (fold (checkTime num now med) ts st)"
  by (rule fold_mono) (rule checkTime_mono)

lemma fold_checkTime_hit:
  assumes "timeStr \<in> set ts" and "inWindow num now timeStr"
  shows "notifKeyOf med timeStr now \<in> fst (fold (checkTime num now med) ts st)"
proof (rule fold_hit [where a = timeStr])
  show "fst s \<subseteq> fst (checkTime num now med x s)" for x s
    by (rule checkTime_mono)
  show "notifKeyOf med timeStr now \<in> fst (checkTime num now med timeStr s)" for s
    by (rule checkTime_hit [OF assms(2)])
  show "timeStr \<in> set ts"
    by (rule assms(1))
qed

lemma checkMed_inv: "sentIsShown st \<Longrightarrow> sentIsShown (checkMed num now med st)"
  by (cases "scheduleType med"; cases "fixedTimes med"; cases "takenToday med")
     (simp_all add: checkMed_def fold_checkTime_inv)

lemma checkMed_mono: "fst st \<subseteq> fst (checkMed num now med st)"
  by (cases "scheduleType med"; cases "fixedTimes med"; cases "takenToday med")
     (simp_all add: checkMed_def fold_checkTime_mono)

lemma checkMed_hit:
  "scheduleType med = Fixed \<Longrightarrow> fixedTimes med = Some ts \<Longrightarrow> \<not> takenToday med \<Longrightarrow>
   timeStr \<in> set ts \<Longrightarrow> inWindow num now timeStr \<Longrightarrow>
   notifKeyOf med timeStr now \<in> fst (checkMed num now med st)"
  by (simp add: checkMed_def fold_checkTime_hit)

lemma checkMedications_inv:
  "sentIsShown st \<Longrightarrow> sentIsShown (checkMedications num now profile st)"
  unfolding checkMedications_def
  by (rule fold_inv [where I = sentIsShown]) (rule checkMed_inv)

lemma checkMedications_mono: "fst st \<subseteq> fst (checkMedications num now profile st)"
  unfolding checkMedications_def by (rule fold_mono) (rule checkMed_mono)

lemma checkMedications_hit:
  assumes "med \<in> set (medications profile)" "scheduleType med = Fixed"
    "fixedTimes med = Some ts" "\<not> takenToday med" "timeStr \<in> set ts"
    "inWindow num now timeStr"
  shows "notifKeyOf med timeStr now \<in> fst (checkMedications num now profile st)"
  unfolding checkMedications_def
proof (rule fold_hit [where a = med])
  show "fst s \<subseteq> fst (checkMed num now x s)" for x s
    by (rule checkMed_mono)
  show "notifKeyOf med timeStr now \<in> fst (checkMed num now med s)" for s
    by (rule checkMed_hit [OF assms(2-6)])
  show "med \<in> set (medications profile)"
    by (rule assms(1))
qed

lemma sentIsShown_empty: "sentIsShown ({}, [])"
  by (simp add: sentIsShown_def)

lemma poll_inv:
  assumes "sentIsShown st"
  shows "sentIsShown (poll num profile ticks st)"
proof -
  have "sentIsShown (fold (\<lambda>now. checkMedications num now profile) ticks st)"
    by (rule fold_inv [where I = sentIsShown, OF _ assms]) (rule checkMedications_inv)
  with assms show ?thesis by (simp add: poll_def)
qed

lemma poll_hit:
  assumes "onboardingComplete profile"
    and "med \<in> set (medications profile)" "scheduleType med = Fixed"
    "fixedTimes med = Some ts" "\<not> takenToday med" "timeStr \<in> set ts"
    and "now \<in> set ticks" "inWindow num now timeStr"
  shows "notifKeyOf med timeStr now \<in> fst (poll num profile ticks st)"
proof -
  have "notifKeyOf med timeStr now \<in>
          fst (fold (\<lambda>now. checkMedications num now profile) ticks st)"
  proof (rule fold_hit [where a = now])
    show "fst s \<subseteq> fst (checkMedications num x profile s)" for x s
      by (rule checkMedications_mono)
    show "notifKeyOf med timeStr now \<in> fst (checkMedications num now profile s)" for s
      by (rule checkMedications_hit [OF assms(2-6) assms(8)])
    show "now \<in> set ticks"
      by (rule assms(7))
  qed
  with assms(1) show ?thesis by (simp add: poll_def)
qed

text \<open>
  Within one session the poll never shows two reminders with the same key, however
  many ticks fall into a trigger window, and it shows exactly one reminder with the key
  of a tick that falls into the window of a fixed time of a medication that is not
  marked as taken.
\<close>

lemma poll_keys_distinct:
  "distinct (map reminder_key (snd (poll num profile ticks ({}, []))))"
  using poll_inv [OF sentIsShown_empty, of num profile ticks]
  by (simp add: sentIsShown_def)

lemma poll_shows_once:
  assumes "onboardingComplete profile"
    and "med \<in> set (medications profile)" "scheduleType med = Fixed"
    "fixedTimes med = Some ts" "\<not> takenToday med" "timeStr \<in> set ts"
    and "now \<in> set ticks" "inWindow num now timeStr"
  shows "length (filter (\<lambda>r. reminder_key r = notifKeyOf med timeStr now)
                   (snd (poll num profile ticks ({}, [])))) = 1"
proof -
  let ?k = "notifKeyOf med timeStr now"
  let ?st = "poll num profile ticks ({}, [])"
  have inv: "sentIsShown ?st"
    by (rule poll_inv [OF sentIsShown_empty])
  have "?k \<in> fst ?st"
    by (rule poll_hit [OF assms])
  with inv have "?k \<in> reminder_key ` set (snd ?st)"
    by (simp add: sentIsShown_def)
  moreover from inv have "distinct (map reminder_key (snd ?st))"
    by (simp add: sentIsShown_def)
  ultimately show ?thesis
    by (rule filter_distinct_once [rotated])
qed

text \<open>
  C9. For a medication with a fixed schedule that is not completed today and each of its
  fixed times, the poll shows exactly one primary reminder per medication, scheduled
  time and calendar day. The key that suppresses repeats holds the day of the month, not
  the calendar day, so two days with the same day number share a key. In a session
  that is polled at 08:00 on 5 January and at 08:00 on 5 February, with Metformina due at
  08:00 and not taken, one reminder is shown in all: the tick of 5 February is in the
  trigger window and finds its key already sent. A session that starts on 5 February
  shows the reminder at that same tick.
\<close>

theorem poll_skips_same_day_of_month:
  "inWindow decimalNumber feb5 ''08:00'' \<and>
   (localYear jan5, localMonth jan5, localDate jan5) \<noteq>
     (localYear feb5, localMonth feb5, localDate feb5) \<and>
   notifKeyOf metformina ''08:00'' jan5 = notifKeyOf metformina ''08:00'' feb5 \<and>
   snd (poll decimalNumber demoProfile [jan5, feb5] ({}, [])) =
     [\<lparr> reminder_key = ''m1-08:00-5'',
        reminder_body = ''Es hora de tomar: Metformina (850 mg)'' \<rparr>] \<and>
   snd (poll decimalNumber demoProfile [feb5] ({}, [])) =
     [\<lparr> reminder_key = ''m1-08:00-5'',
        reminder_body = ''Es hora de tomar: Metformina (850 mg)'' \<rparr>]"
  by (simp add: poll_def checkMedications_def checkMed_def checkTime_def inWindow_def
        notifKeyOf_def getMinutes_sample sample_defs jan5_def feb5_def
        numberToString_def digits.simps Let_def)

end
